theory Spec2Isabelle
  imports Main
begin

section \<open>Text: the string operations of \<^verbatim>\<open>index.py\<close>\<close>

text \<open>
  A Python \<^verbatim>\<open>str\<close> is modelled as a \<^typ>\<open>string\<close>: one \<^typ>\<open>char\<close> stands for one code
  point. The content of a file is kept at the same level, as the characters the text layer
  delivers before newline translation; whether a content decodes under an encoding is
  decided by the environment (see \<open>env\<close> below).
\<close>

abbreviation LF :: char where "LF \<equiv> CHR 0x0A"
abbreviation CR :: char where "CR \<equiv> CHR 0x0D"

text \<open>\<^verbatim>\<open>str.isspace\<close> on the code points below 256.\<close>

definition py_isspace :: "char \<Rightarrow> bool" where
  "py_isspace c = (c \<in> set [CHR 0x09, CHR 0x0A, CHR 0x0B, CHR 0x0C, CHR 0x0D,
       CHR 0x1C, CHR 0x1D, CHR 0x1E, CHR 0x1F, CHR 0x20, CHR 0x85, CHR 0xA0])"

text \<open>\<^verbatim>\<open>s.rstrip(chars)\<close>, \<^verbatim>\<open>s.strip()\<close> and \<^verbatim>\<open>s.endswith(suffix)\<close>.\<close>

definition py_rstrip :: "string \<Rightarrow> string \<Rightarrow> string" where
  "py_rstrip chars s = rev (dropWhile (\<lambda>c. c \<in> set chars) (rev s))"

definition py_strip :: "string \<Rightarrow> string" where
  "py_strip s = dropWhile py_isspace (rev (dropWhile py_isspace (rev s)))"

definition py_endswith :: "string \<Rightarrow> string \<Rightarrow> bool" where
  "py_endswith s suffix = (take (length suffix) (rev s) = rev suffix)"

text \<open>
  \<^verbatim>\<open>s.replace(old, new)\<close>: with a non-empty \<open>old\<close> the occurrences are replaced from the
  left, without overlap; with an empty \<open>old\<close> Python inserts \<open>new\<close> before every character
  and at the end.
\<close>

fun replace_from :: "string \<Rightarrow> string \<Rightarrow> string \<Rightarrow> string" where
  "replace_from old new [] = []"
| "replace_from old new (c # cs) =
     (if old \<noteq> [] \<and> take (length old) (c # cs) = old
      then new @ replace_from old new (drop (length old) (c # cs))
      else c # replace_from old new cs)"

definition py_replace :: "string \<Rightarrow> string \<Rightarrow> string \<Rightarrow> string" where
  "py_replace s old new =
     (if old = [] then new @ concat (map (\<lambda>c. c # new) s) else replace_from old new s)"

text \<open>
  \<^verbatim>\<open>f"{n:04d}"\<close> for a non-negative \<open>n\<close>: the decimal digits, padded with zeros on the left
  to four characters.
\<close>

definition digit_char :: "nat \<Rightarrow> char" where
  "digit_char d = char_of (48 + d)"

fun str_nat :: "nat \<Rightarrow> string" where
  "str_nat n = (if n < 10 then [digit_char n] else str_nat (n div 10) @ [digit_char (n mod 10)])"

declare str_nat.simps [simp del]

definition format_04d :: "nat \<Rightarrow> string" where
  "format_04d n = replicate (4 - length (str_nat n)) (CHR ''0'') @ str_nat n"

text \<open>Reading a decimal numeral back, to state what a numeric field denotes.\<close>

definition digit_val :: "char \<Rightarrow> nat" where
  "digit_val c = of_char c - 48"

definition is_digit :: "char \<Rightarrow> bool" where
  "is_digit c = ((48::nat) \<le> of_char c \<and> of_char c \<le> (57::nat))"

definition dec_value :: "string \<Rightarrow> nat" where
  "dec_value s = foldl (\<lambda>a c. 10 * a + digit_val c) 0 s"

section \<open>The environment and the world\<close>

datatype error =
    FileNotFoundError | IsADirectoryError | NotADirectoryError | FileExistsError
  | UnicodeDecodeError | LookupError | OSError | EOFError

text \<open>
  What the program takes from the Python runtime and the platform, as parameters:
  \<^item> \<open>str_upper\<close>, \<open>str_lower\<close>: \<^verbatim>\<open>str.upper\<close> and \<^verbatim>\<open>str.lower\<close>;
  \<^item> \<open>decode_error enc content\<close>: the exception, if any, that reading the whole content
    under the encoding named \<open>enc\<close> raises (\<^verbatim>\<open>UnicodeDecodeError\<close>, or \<^verbatim>\<open>LookupError\<close> for
    an unknown name);
  \<^item> \<open>probe_error enc content\<close>: the same for the single \<^verbatim>\<open>f.readline()\<close> of the probe,
    which decodes only the chunk it buffers;
  \<^item> \<open>linesep\<close>: \<^verbatim>\<open>os.linesep\<close>, written for every \<^verbatim>\<open>"\n"\<close> by a file opened in text mode;
  \<^item> \<open>expanduser\<close>: \<^verbatim>\<open>os.path.expanduser\<close>.
\<close>

record env =
  str_upper :: "string \<Rightarrow> string"
  str_lower :: "string \<Rightarrow> string"
  decode_error :: "string \<Rightarrow> string \<Rightarrow> error option"
  probe_error :: "string \<Rightarrow> string \<Rightarrow> error option"
  linesep :: string
  expanduser :: "string \<Rightarrow> string"

type_synonym path = string

datatype node = File string | Dir

text \<open>
  The state the pipelines act on:
  \<^item> \<open>fs\<close>: the file system, a path to what it names (paths are taken as written);
  \<^item> \<open>stdin\<close>: the lines the user will type, one per \<^verbatim>\<open>input()\<close>;
  \<^item> \<open>asked\<close>: the prompts \<^verbatim>\<open>input()\<close> has shown, oldest first;
  \<^item> \<open>tmp_names\<close>: the names \<^verbatim>\<open>tempfile\<close>'s random generator will propose;
  \<^item> \<open>disk_free\<close>: how many characters the staging file can hold before the device
    reports that it is full (\<open>None\<close>: it never does).
\<close>

record world =
  fs :: "path \<Rightarrow> node option"
  stdin :: "string list"
  asked :: "string list"
  tmp_names :: "string list"
  disk_free :: "nat option"

text \<open>\<^verbatim>\<open>os.path.dirname\<close> and \<^verbatim>\<open>os.path.join\<close> (posixpath).\<close>

definition dirname :: "path \<Rightarrow> path" where
  "dirname p =
     (let head = rev (dropWhile (\<lambda>c. c \<noteq> CHR ''/'') (rev p))
      in if head \<noteq> [] \<and> head \<noteq> replicate (length head) (CHR ''/'')
         then py_rstrip ''/'' head else head)"

definition path_join :: "path \<Rightarrow> path \<Rightarrow> path" where
  "path_join a b =
     (if take 1 b = ''/'' then b
      else if a = [] \<or> py_endswith a ''/'' then a @ b
      else a @ ''/'' @ b)"

text \<open>\<^verbatim>\<open>os.path.dirname(output_path) or "."\<close>\<close>

definition out_dir :: "path \<Rightarrow> path" where
  "out_dir output_path = (if dirname output_path = [] then ''.'' else dirname output_path)"

definition os_path_exists :: "path \<Rightarrow> world \<Rightarrow> bool" where
  "os_path_exists p w = (fs w p \<noteq> None)"

text \<open>
  Universal newlines, as a file opened with \<^verbatim>\<open>open(path, "r")\<close> reads: each of
  \<^verbatim>\<open>"\r\n"\<close>, \<^verbatim>\<open>"\r"\<close> and \<^verbatim>\<open>"\n"\<close> ends a line and is delivered as \<^verbatim>\<open>"\n"\<close>.
\<close>

fun nl_read :: "string \<Rightarrow> string" where
  "nl_read [] = []"
| "nl_read [c] = (if c = CR then [LF] else [c])"
| "nl_read (c # d # cs) =
     (if c = CR \<and> d = LF then LF # nl_read cs
      else if c = CR then LF # nl_read (d # cs)
      else c # nl_read (d # cs))"

text \<open>The lines of a text, each with its \<^verbatim>\<open>"\n"\<close>; only the last one can lack it.\<close>

fun split_lines :: "string \<Rightarrow> string list" where
  "split_lines [] = []"
| "split_lines (c # cs) =
     (if c = LF then [LF] # split_lines cs
      else (case split_lines cs of
              [] \<Rightarrow> [[c]]
            | l # ls \<Rightarrow> (c # l) # ls))"

text \<open>What a file opened in text mode writes for a string.\<close>

definition nl_write :: "env \<Rightarrow> string \<Rightarrow> string" where
  "nl_write env s = concat (map (\<lambda>c. if c = LF then linesep env else [c]) s)"

text \<open>
  \<^verbatim>\<open>open(path, "r", encoding=enc)\<close> and the lines the file then yields (by iteration or by
  \<^verbatim>\<open>readlines()\<close>). A content that does not decode raises; the model raises before the
  first line is delivered.
\<close>

definition open_read :: "env \<Rightarrow> path \<Rightarrow> string \<Rightarrow> world \<Rightarrow> error + string list" where
  "open_read env p enc w =
     (case fs w p of
        None \<Rightarrow> Inl FileNotFoundError
      | Some Dir \<Rightarrow> Inl IsADirectoryError
      | Some (File content) \<Rightarrow>
          (case decode_error env enc content of
             Some e \<Rightarrow> Inl e
           | None \<Rightarrow> Inr (split_lines (nl_read content))))"

text \<open>\<^verbatim>\<open>input(prompt)\<close>: the next line of the user, \<^verbatim>\<open>EOFError\<close> when there is none.\<close>

definition py_input :: "string \<Rightarrow> world \<Rightarrow> (error + string) \<times> world" where
  "py_input prompt w =
     (case stdin w of
        [] \<Rightarrow> (Inl EOFError, w\<lparr>asked := asked w @ [prompt]\<rparr>)
      | l # ls \<Rightarrow> (Inr l, w\<lparr>stdin := ls, asked := asked w @ [prompt]\<rparr>))"

text \<open>
  \<^verbatim>\<open>tempfile.NamedTemporaryFile(mode="w", delete=False, dir=d)\<close>: an empty file under the
  first proposed name that names nothing yet.
\<close>

definition NamedTemporaryFile :: "path \<Rightarrow> world \<Rightarrow> (error + path) \<times> world" where
  "NamedTemporaryFile d w =
     (case fs w d of
        None \<Rightarrow> (Inl FileNotFoundError, w)
      | Some (File content) \<Rightarrow> (Inl NotADirectoryError, w)
      | Some Dir \<Rightarrow>
          (case find (\<lambda>n. fs w (path_join d n) = None) (tmp_names w) of
             None \<Rightarrow> (Inl FileExistsError, w)
           | Some n \<Rightarrow> (Inr (path_join d n), w\<lparr>fs := (fs w)(path_join d n \<mapsto> File [])\<rparr>)))"

text \<open>
  \<^verbatim>\<open>tmp.write(s)\<close>, unbuffered: the device is full when the file would grow beyond
  \<open>disk_free\<close>.
\<close>

definition file_write :: "env \<Rightarrow> path \<Rightarrow> string \<Rightarrow> world \<Rightarrow> (error + unit) \<times> world" where
  "file_write env p s w =
     (case fs w p of
        Some (File old) \<Rightarrow>
          (let data = old @ nl_write env s in
           if (case disk_free w of None \<Rightarrow> False | Some q \<Rightarrow> q < length data)
           then (Inl OSError, w)
           else (Inr (), w\<lparr>fs := (fs w)(p \<mapsto> File data)\<rparr>))
      | _ \<Rightarrow> (Inl OSError, w))"

fun writelines :: "env \<Rightarrow> path \<Rightarrow> string list \<Rightarrow> world \<Rightarrow> (error + unit) \<times> world" where
  "writelines env p [] w = (Inr (), w)"
| "writelines env p (l # ls) w =
     (case file_write env p l w of
        (Inl e, w') \<Rightarrow> (Inl e, w')
      | (Inr u, w') \<Rightarrow> writelines env p ls w')"

text \<open>\<^verbatim>\<open>os.remove\<close> and \<^verbatim>\<open>os.replace\<close>; only the renaming of a file is modelled.\<close>

definition os_remove :: "path \<Rightarrow> world \<Rightarrow> (error + unit) \<times> world" where
  "os_remove p w =
     (case fs w p of
        None \<Rightarrow> (Inl FileNotFoundError, w)
      | Some Dir \<Rightarrow> (Inl IsADirectoryError, w)
      | Some (File content) \<Rightarrow> (Inr (), w\<lparr>fs := (fs w)(p := None)\<rparr>))"

definition os_replace :: "path \<Rightarrow> path \<Rightarrow> world \<Rightarrow> (error + unit) \<times> world" where
  "os_replace src dst w =
     (case fs w src of
        None \<Rightarrow> (Inl FileNotFoundError, w)
      | Some Dir \<Rightarrow> (Inl OSError, w)
      | Some (File content) \<Rightarrow>
          if dst = [] \<or> fs w (out_dir dst) = None then (Inl FileNotFoundError, w)
          else if fs w (out_dir dst) \<noteq> Some Dir then (Inl NotADirectoryError, w)
          else if fs w dst = Some Dir then (Inl IsADirectoryError, w)
          else (Inr (), w\<lparr>fs := ((fs w)(src := None))(dst \<mapsto> File content)\<rparr>))"

section \<open>The program\<close>

subsection \<open>\<^verbatim>\<open>choose_encoding_try\<close>\<close>

text \<open>One turn of the loop body: \<^verbatim>\<open>open(filename, "r", encoding=enc)\<close>, then \<^verbatim>\<open>f.readline()\<close>.\<close>

definition probe :: "env \<Rightarrow> world \<Rightarrow> path \<Rightarrow> string \<Rightarrow> error + unit" where
  "probe env w filename enc =
     (case fs w filename of
        None \<Rightarrow> Inl FileNotFoundError
      | Some Dir \<Rightarrow> Inl IsADirectoryError
      | Some (File content) \<Rightarrow>
          (case probe_error env enc content of
             Some e \<Rightarrow> Inl e
           | None \<Rightarrow> Inr ()))"

fun choose_encoding_try :: "env \<Rightarrow> world \<Rightarrow> path \<Rightarrow> string list \<Rightarrow> error + string" where
  "choose_encoding_try env w filename [] = Inl UnicodeDecodeError"
| "choose_encoding_try env w filename (enc # encodings) =
     (case probe env w filename enc of
        Inr u \<Rightarrow> Inr enc
      | Inl e \<Rightarrow>
          if e = UnicodeDecodeError then choose_encoding_try env w filename encodings
          else Inl e)"

definition default_encodings :: "string list" where
  "default_encodings = [''utf-8'', ''cp1252'', ''latin-1'']"

subsection \<open>\<^verbatim>\<open>transform_line_core\<close>\<close>

text \<open>
  The dictionary \<^verbatim>\<open>opt\<close> as \<^verbatim>\<open>prompt_transformation\<close> builds it: \<^verbatim>\<open>"choice"\<close> is always
  there, \<^verbatim>\<open>"target"\<close> and \<^verbatim>\<open>"replacement"\<close> may be absent (\<^verbatim>\<open>opt.get(key, "")\<close>).
\<close>

record opt =
  choice :: string
  target :: "string option"
  replacement :: "string option"

definition opt_get :: "string option \<Rightarrow> string" where
  "opt_get v = (case v of None \<Rightarrow> [] | Some s \<Rightarrow> s)"

definition transform_line_core :: "env \<Rightarrow> string \<Rightarrow> nat \<Rightarrow> opt \<Rightarrow> string option" where
  "transform_line_core env core_text idx opt =
     (if choice opt = ''1'' then Some (format_04d (idx + 1) @ '': '' @ core_text)
      else if choice opt = ''2'' then Some (str_upper env core_text)
      else if choice opt = ''3'' then Some (str_lower env core_text)
      else if choice opt = ''4'' then
        (if py_strip core_text = [] then None else Some core_text)
      else if choice opt = ''5'' then
        Some (py_replace core_text (opt_get (target opt)) (opt_get (replacement opt)))
      else if choice opt = ''6'' then Some core_text
      else if choice opt = ''7'' then Some core_text
      else Some core_text)"

subsection \<open>The commit, shared by both pipelines\<close>

definition overwrite_prompt :: "path \<Rightarrow> string" where
  "overwrite_prompt output_path =
     ''Output file '' @ [CHR 0x27] @ output_path @ [CHR 0x27]
       @ '' already exists. Overwrite? (y/N): ''"

definition new_name_prompt :: string where
  "new_name_prompt =
     ''Enter a new output filename (or '' @ [CHR 0x27] @ ''q'' @ [CHR 0x27] @ '' to cancel): ''"

text \<open>
  Lines 199-208 of \<^verbatim>\<open>process_streaming\<close>, the same statements as lines 252-260 of
  \<^verbatim>\<open>process_reverse\<close>: the value is \<open>None\<close> where the source returns early (the operation
  is cancelled), and the path \<^verbatim>\<open>output_path\<close> is bound to where it goes on to
  \<^verbatim>\<open>os.replace\<close>.
\<close>

definition confirm_output :: "env \<Rightarrow> path \<Rightarrow> path \<Rightarrow> world \<Rightarrow> (error + path option) \<times> world" where
  "confirm_output env tmp_name output_path w =
     (if os_path_exists output_path w then
        (case py_input (overwrite_prompt output_path) w of
           (Inl e, w1) \<Rightarrow> (Inl e, w1)
         | (Inr r, w1) \<Rightarrow>
             (let resp = str_lower env (py_strip r) in
              if resp \<noteq> ''y'' then
                (case py_input new_name_prompt w1 of
                   (Inl e, w2) \<Rightarrow> (Inl e, w2)
                 | (Inr n, w2) \<Rightarrow>
                     (let new_name = py_strip n in
                      if str_lower env new_name = ''q'' then
                        (case os_remove tmp_name w2 of
                           (Inl e, w3) \<Rightarrow> (Inl e, w3)
                         | (Inr u, w3) \<Rightarrow> (Inr None, w3))
                      else (Inr (Some (expanduser env new_name)), w2)))
              else (Inr (Some output_path), w1)))
      else (Inr (Some output_path), w))"

text \<open>
  The \<^verbatim>\<open>try\<close> statement around it (lines 197-218 and 251-267): the body goes on to
  \<^verbatim>\<open>os.replace\<close>; the handler removes the staging file, ignoring a failure of the removal,
  and raises the exception again.
\<close>

definition commit :: "env \<Rightarrow> path \<Rightarrow> path \<Rightarrow> world \<Rightarrow> (error + path option) \<times> world" where
  "commit env tmp_name output_path w =
     (case (case confirm_output env tmp_name output_path w of
              (Inl e, w1) \<Rightarrow> (Inl e, w1)
            | (Inr None, w1) \<Rightarrow> (Inr None, w1)
            | (Inr (Some dst), w1) \<Rightarrow>
                (case os_replace tmp_name dst w1 of
                   (Inl e, w2) \<Rightarrow> (Inl e, w2)
                 | (Inr u, w2) \<Rightarrow> (Inr (Some dst), w2))) of
        (Inl e, w') \<Rightarrow> (Inl e, snd (os_remove tmp_name w'))
      | (Inr r, w') \<Rightarrow> (Inr r, w'))"

subsection \<open>\<^verbatim>\<open>process_streaming\<close>\<close>

text \<open>The \<^verbatim>\<open>for idx, raw_line in enumerate(src)\<close> loop, with its two counters.\<close>

fun stream_loop ::
  "env \<Rightarrow> opt \<Rightarrow> path \<Rightarrow> nat \<Rightarrow> string list \<Rightarrow> nat \<times> nat \<Rightarrow> world \<Rightarrow> (error + nat \<times> nat) \<times> world"
where
  "stream_loop env opt tmp_name idx [] (lines_read, lines_written) w =
     (Inr (lines_read, lines_written), w)"
| "stream_loop env opt tmp_name idx (raw_line # rest) (lines_read, lines_written) w =
     (let has_nl = py_endswith raw_line [LF];
          core = py_rstrip [CR, LF] raw_line
      in case transform_line_core env core idx opt of
           None \<Rightarrow> stream_loop env opt tmp_name (idx + 1) rest (lines_read + 1, lines_written) w
         | Some transformed \<Rightarrow>
             (case file_write env tmp_name (transformed @ (if has_nl then [LF] else [])) w of
                (Inl e, w') \<Rightarrow> (Inl e, w')
              | (Inr u, w') \<Rightarrow>
                  stream_loop env opt tmp_name (idx + 1) rest (lines_read + 1, lines_written + 1) w'))"

text \<open>
  The first handler (lines 187-194) closes and removes the staging file, ignoring a failure
  of the removal, and raises again.
\<close>

definition process_streaming ::
  "env \<Rightarrow> path \<Rightarrow> string \<Rightarrow> opt \<Rightarrow> path \<Rightarrow> world \<Rightarrow> (error + nat \<times> nat \<times> path option) \<times> world"
where
  "process_streaming env input_path encoding opt output_path w =
     (case NamedTemporaryFile (out_dir output_path) w of
        (Inl e, w0) \<Rightarrow> (Inl e, w0)
      | (Inr tmp_name, w0) \<Rightarrow>
          (case (case open_read env input_path encoding w0 of
                   Inl e \<Rightarrow> (Inl e, w0)
                 | Inr src \<Rightarrow> stream_loop env opt tmp_name 0 src (0, 0) w0) of
             (Inl e, w1) \<Rightarrow> (Inl e, snd (os_remove tmp_name w1))
           | (Inr (lines_read, lines_written), w1) \<Rightarrow>
               (case commit env tmp_name output_path w1 of
                  (Inl e, w2) \<Rightarrow> (Inl e, w2)
                | (Inr None, w2) \<Rightarrow> (Inr (lines_read, 0, None), w2)
                | (Inr (Some p), w2) \<Rightarrow> (Inr (lines_read, lines_written, Some p), w2))))"

subsection \<open>\<^verbatim>\<open>process_reverse\<close>\<close>

text \<open>The loop that fills \<^verbatim>\<open>transformed_lines\<close> (lines 236-243).\<close>

fun transform_lines :: "env \<Rightarrow> opt \<Rightarrow> nat \<Rightarrow> string list \<Rightarrow> string list" where
  "transform_lines env opt idx [] = []"
| "transform_lines env opt idx (raw_line # rest) =
     (let core = py_rstrip [CR, LF] raw_line;
          has_nl = py_endswith raw_line [LF]
      in case transform_line_core env core idx opt of
           None \<Rightarrow> transform_lines env opt (idx + 1) rest
         | Some t \<Rightarrow> (t @ (if has_nl then [LF] else [])) # transform_lines env opt (idx + 1) rest)"

text \<open>
  The warning is printed, and \<^verbatim>\<open>input()\<close> is called without a prompt. The
  \<^verbatim>\<open>with\<close> statement that writes the staging file (lines 247-249) has no handler.
\<close>

definition process_reverse ::
  "env \<Rightarrow> path \<Rightarrow> string \<Rightarrow> opt \<Rightarrow> path \<Rightarrow> world \<Rightarrow> (error + nat \<times> nat \<times> path option) \<times> world"
where
  "process_reverse env input_path encoding opt output_path w =
     (case py_input [] w of
        (Inl e, w0) \<Rightarrow> (Inl e, w0)
      | (Inr c, w0) \<Rightarrow>
          if str_lower env (py_strip c) = ''n'' then (Inr (0, 0, None), w0)
          else
            (case open_read env input_path encoding w0 of
               Inl e \<Rightarrow> (Inl e, w0)
             | Inr lines \<Rightarrow>
                 (let transformed_lines = transform_lines env opt 0 lines in
                  case NamedTemporaryFile (out_dir output_path) w0 of
                    (Inl e, w1) \<Rightarrow> (Inl e, w1)
                  | (Inr tmp_name, w1) \<Rightarrow>
                      (case writelines env tmp_name (rev transformed_lines) w1 of
                         (Inl e, w2) \<Rightarrow> (Inl e, w2)
                       | (Inr u, w2) \<Rightarrow>
                           (case commit env tmp_name output_path w2 of
                              (Inl e, w3) \<Rightarrow> (Inl e, w3)
                            | (Inr None, w3) \<Rightarrow> (Inr (0, 0, None), w3)
                            | (Inr (Some p), w3) \<Rightarrow>
                                (Inr (length lines, length transformed_lines, Some p), w3))))))"

section \<open>An environment and files to run the program on\<close>

text \<open>
  Case mapping on the ASCII letters, a home directory, the line separator of POSIX, and
  codecs that refuse the bytes that are invalid wherever they stand: 0xFF in UTF-8, 0x81 in
  cp1252, none in latin-1. An unknown encoding name is a \<^verbatim>\<open>LookupError\<close>.
\<close>

definition ascii_upper :: "char \<Rightarrow> char" where
  "ascii_upper c =
     (if (97::nat) \<le> of_char c \<and> of_char c \<le> (122::nat) then char_of (of_char c - (32::nat)) else c)"

definition ascii_lower :: "char \<Rightarrow> char" where
  "ascii_lower c =
     (if (65::nat) \<le> of_char c \<and> of_char c \<le> (90::nat) then char_of (of_char c + (32::nat)) else c)"

definition codec_error :: "string \<Rightarrow> string \<Rightarrow> error option" where
  "codec_error enc content =
     (if enc = ''utf-8'' then (if CHR 0xFF \<in> set content then Some UnicodeDecodeError else None)
      else if enc = ''cp1252'' then (if CHR 0x81 \<in> set content then Some UnicodeDecodeError else None)
      else if enc = ''latin-1'' then None
      else Some LookupError)"

definition home_expand :: "string \<Rightarrow> string" where
  "home_expand p = (if p = ''~'' \<or> take 2 p = ''~/'' then ''/home/user'' @ drop 1 p else p)"

definition posix_env :: env where
  "posix_env = \<lparr> str_upper = map ascii_upper, str_lower = map ascii_lower,
     decode_error = codec_error, probe_error = codec_error,
     linesep = [LF], expanduser = home_expand \<rparr>"

text \<open>A working directory holding the given files, an idle user and a disk with room.\<close>

definition cwd_with :: "(path \<times> string) list \<Rightarrow> string list \<Rightarrow> world" where
  "cwd_with files answers =
     \<lparr> fs = (map_of (map (\<lambda>(p, c). (p, File c)) files))(''.'' \<mapsto> Dir),
       stdin = answers, asked = [], tmp_names = [''tmpk3x9a''], disk_free = None \<rparr>"

section \<open>Properties of the text operations\<close>

subsection \<open>Decimal numerals\<close>

lemma digit_char_val: "d < 10 \<Longrightarrow> digit_val (digit_char d) = d"
  by (simp add: digit_val_def digit_char_def)

lemma digit_char_is_digit: "d < 10 \<Longrightarrow> is_digit (digit_char d)"
  by (simp add: is_digit_def digit_char_def)

lemma dec_value_snoc: "dec_value (s @ [c]) = 10 * dec_value s + digit_val c"
  by (simp add: dec_value_def)

lemma str_nat_digits: "list_all is_digit (str_nat n)"
proof (induction n rule: str_nat.induct)
  case (1 n)
  show ?case
  proof (cases "n < 10")
    case True
    then show ?thesis
      by (subst str_nat.simps) (simp add: digit_char_is_digit)
  next
    case False
    with 1 show ?thesis
      by (subst str_nat.simps) (simp add: digit_char_is_digit)
  qed
qed

lemma dec_value_str_nat: "dec_value (str_nat n) = n"
proof (induction n rule: str_nat.induct)
  case (1 n)
  show ?case
  proof (cases "n < 10")
    case True
    then show ?thesis
      by (subst str_nat.simps) (simp add: dec_value_def digit_char_val)
  next
    case False
    with 1 have "dec_value (str_nat (n div 10)) = n div 10" by simp
    with False show ?thesis
      by (subst str_nat.simps) (simp add: dec_value_snoc digit_char_val)
  qed
qed

lemma str_nat_nonempty: "0 < length (str_nat n)"
  by (subst str_nat.simps) simp

lemma str_nat_upper: "n < 10 ^ length (str_nat n)"
proof (induction n rule: str_nat.induct)
  case (1 n)
  show ?case
  proof (cases "n < 10")
    case True
    then show ?thesis
      by (subst str_nat.simps) simp
  next
    case False
    with 1 have "n div 10 < 10 ^ length (str_nat (n div 10))" by simp
    then have "n < 10 * 10 ^ length (str_nat (n div 10))" by linarith
    with False show ?thesis
      by (subst str_nat.simps) simp
  qed
qed

lemma str_nat_lower: "0 < n \<Longrightarrow> 10 ^ (length (str_nat n) - 1) \<le> n"
proof (induction n rule: str_nat.induct)
  case (1 n)
  show ?case
  proof (cases "n < 10")
    case True
    with 1 show ?thesis
      by (subst str_nat.simps) simp
  next
    case False
    then have pos: "0 < n div 10" by simp
    with 1 False have "10 ^ (length (str_nat (n div 10)) - 1) \<le> n div 10" by simp
    then have "10 * 10 ^ (length (str_nat (n div 10)) - 1) \<le> n" by linarith
    moreover have "10 * 10 ^ (length (str_nat (n div 10)) - 1) = (10::nat) ^ length (str_nat (n div 10))"
      using str_nat_nonempty [of "n div 10"] by (cases "length (str_nat (n div 10))") simp_all
    ultimately show ?thesis using False
      by (subst str_nat.simps) simp
  qed
qed

lemma dec_value_zeros: "dec_value (replicate k (CHR ''0'') @ s) = dec_value s"
proof -
  have "foldl (\<lambda>a c. 10 * a + digit_val c) 0 (replicate k (CHR ''0'')) = 0"
    by (induction k) (simp_all add: digit_val_def)
  then show ?thesis by (simp add: dec_value_def)
qed

lemma format_04d_value: "dec_value (format_04d n) = n"
  by (simp add: format_04d_def dec_value_zeros dec_value_str_nat)

lemma format_04d_digits: "list_all is_digit (format_04d n)"
proof -
  have "is_digit (CHR ''0'')" by (simp add: is_digit_def)
  then have "list_all is_digit (replicate k (CHR ''0''))" for k
    by (induction k) simp_all
  then show ?thesis by (simp add: format_04d_def str_nat_digits)
qed

lemma format_04d_length: "length (format_04d n) = max 4 (length (str_nat n))"
  by (simp add: format_04d_def)

lemma str_nat_short: "n < 10000 \<Longrightarrow> length (str_nat n) \<le> 4"
proof (rule ccontr)
  assume n: "n < 10000" and "\<not> length (str_nat n) \<le> 4"
  then have len: "5 \<le> length (str_nat n)" by simp
  then have "0 < n" using str_nat.simps [of n] by (cases "n = 0") auto
  then have "10 ^ (length (str_nat n) - 1) \<le> n" by (rule str_nat_lower)
  moreover have "(10::nat) ^ 4 \<le> 10 ^ (length (str_nat n) - 1)"
    using len by (intro power_increasing) simp_all
  ultimately show False using n by simp
qed

lemma str_nat_long: "10000 \<le> n \<Longrightarrow> 5 \<le> length (str_nat n)"
proof (rule ccontr)
  assume n: "10000 \<le> n" and "\<not> 5 \<le> length (str_nat n)"
  then have "length (str_nat n) \<le> 4" by simp
  then have "(10::nat) ^ length (str_nat n) \<le> 10 ^ 4"
    by (intro power_increasing) simp_all
  with str_nat_upper [of n] n show False by simp
qed

lemma digit_char_table:
  "digit_char 0 = CHR ''0''" "digit_char 1 = CHR ''1''" "digit_char (Suc 0) = CHR ''1''" "digit_char 2 = CHR ''2''"
  "digit_char 3 = CHR ''3''" "digit_char 4 = CHR ''4''" "digit_char 5 = CHR ''5''"
  "digit_char 6 = CHR ''6''" "digit_char 7 = CHR ''7''" "digit_char 8 = CHR ''8''"
  "digit_char 9 = CHR ''9''"
  by (simp_all add: digit_char_def char_of_eq_iff)

lemma replicate_3: "replicate 3 x = [x, x, x]"
  by (simp add: numeral_3_eq_3)

lemma format_04d_1: "format_04d 1 = ''0001''"
  by (simp add: format_04d_def str_nat.simps digit_char_table replicate_3)
lemma format_04d_2: "format_04d 2 = ''0002''"
  by (simp add: format_04d_def str_nat.simps digit_char_table replicate_3)
lemma format_04d_Suc_0: "format_04d (Suc 0) = ''0001''"
  using format_04d_1 by simp
lemma format_04d_Suc_Suc_0: "format_04d (Suc (Suc 0)) = ''0002''"
  using format_04d_2 by (simp add: numeral_2_eq_2)
lemma format_04d_10000: "format_04d 10000 = ''10000''"
  by (simp add: format_04d_def str_nat.simps digit_char_table)

subsection \<open>Replacing an empty target\<close>

lemma concat_cons_length: "length (concat (map (\<lambda>c. c # r) s)) = length s * Suc (length r)"
  by (induction s) simp_all

lemma concat_singletons: "concat (map (\<lambda>c. [c]) s) = s"
  by (induction s) simp_all

lemma insert_between_same: "r @ concat (map (\<lambda>c. c # r) s) = s \<longleftrightarrow> r = []"
proof
  assume "r @ concat (map (\<lambda>c. c # r) s) = s"
  then have "length (r @ concat (map (\<lambda>c. c # r) s)) = length s" by simp
  then have "length r + length s * Suc (length r) = length s"
    by (simp only: length_append concat_cons_length)
  then have "length r + (length s + length s * length r) = length s"
    by (simp only: mult_Suc_right)
  then have "length r = 0" by arith
  then show "r = []" by simp
next
  assume "r = []"
  then show "r @ concat (map (\<lambda>c. c # r) s) = s" by (simp add: concat_singletons)
qed

section \<open>The line transformer\<close>

text \<open>
  Claim C1, as amended. With an empty target, \<^verbatim>\<open>Replace\<close> does what \<^verbatim>\<open>str.replace\<close> does: the
  replacement is inserted before every character of the content and once more at the end.
  The content comes back unchanged exactly when the replacement is empty too.
\<close>

theorem replace_empty_target_inserts:
  assumes "choice opt = ''5''" and "opt_get (target opt) = []"
  shows "transform_line_core env core idx opt
           = Some (opt_get (replacement opt)
                    @ concat (map (\<lambda>c. c # opt_get (replacement opt)) core))
         \<and> (transform_line_core env core idx opt = Some core
              \<longleftrightarrow> opt_get (replacement opt) = [])"
  using assms by (simp add: transform_line_core_def py_replace_def insert_between_same)

text \<open>
  The claim as the specification words it (an empty target leaves the content unchanged
  whatever the replacement) fails on \<^verbatim>\<open>"ab".replace("", "-")\<close>, which is \<^verbatim>\<open>"-a-b-"\<close>.
\<close>

theorem replace_empty_target_counterexample:
  "transform_line_core posix_env ''ab'' 0
     \<lparr>choice = ''5'', target = Some [], replacement = Some ''-''\<rparr> = Some ''-a-b-''
   \<and> transform_line_core posix_env ''ab'' 0
     \<lparr>choice = ''5'', target = Some [], replacement = Some ''-''\<rparr> \<noteq> Some ''ab''"
  by (simp add: transform_line_core_def py_replace_def opt_get_def)

theorem replace_empty_target_witness:
  "transform_line_core posix_env ''ab'' 0
     \<lparr>choice = ''5'', target = Some [], replacement = Some ''-''\<rparr> = Some ''-a-b-''
   \<and> transform_line_core posix_env ''ab'' 0
     \<lparr>choice = ''5'', target = None, replacement = None\<rparr> = Some ''ab''"
proof -
  have a: "transform_line_core posix_env ''ab'' 0
     \<lparr>choice = ''5'', target = Some [], replacement = Some ''-''\<rparr> = Some ''-a-b-''"
    using replace_empty_target_inserts
      [of "\<lparr>choice = ''5'', target = Some [], replacement = Some ''-''\<rparr>" posix_env "''ab''" 0]
    by (simp add: opt_get_def)
  have b: "transform_line_core posix_env ''ab'' 0
     \<lparr>choice = ''5'', target = None, replacement = None\<rparr> = Some ''ab''"
    using replace_empty_target_inserts
      [of "\<lparr>choice = ''5'', target = None, replacement = None\<rparr>" posix_env "''ab''" 0]
    by (simp add: opt_get_def)
  from a b show ?thesis by simp
qed

text \<open>
  Claim C8. \<^verbatim>\<open>AddLineNumbers\<close> returns the content behind the 1-based line number and the
  separator \<^verbatim>\<open>": "\<close>. The number field consists of decimal digits only, denotes
  \<open>idx + 1\<close>, and is as long as the longer of four characters and the numeral itself: four
  characters up to line 9999, and from index 9999 on the plain numeral, which has no
  leading zero, so that nothing is truncated and nothing wraps around.
\<close>

theorem add_line_numbers_field:
  assumes "choice opt = ''1''"
  shows "transform_line_core env core idx opt = Some (format_04d (idx + 1) @ '': '' @ core)
         \<and> list_all is_digit (format_04d (idx + 1))
         \<and> dec_value (format_04d (idx + 1)) = idx + 1
         \<and> length (format_04d (idx + 1)) = max 4 (length (str_nat (idx + 1)))
         \<and> (idx < 9999 \<longrightarrow> length (format_04d (idx + 1)) = 4)
         \<and> (9999 \<le> idx \<longrightarrow> format_04d (idx + 1) = str_nat (idx + 1)
               \<and> 10 ^ (length (format_04d (idx + 1)) - 1) \<le> idx + 1)"
proof -
  have short: "idx < 9999 \<Longrightarrow> length (format_04d (idx + 1)) = 4"
    using str_nat_short [of "idx + 1"] by (simp add: format_04d_def)
  have long: "9999 \<le> idx \<Longrightarrow> format_04d (idx + 1) = str_nat (idx + 1)"
    using str_nat_long [of "idx + 1"] by (simp add: format_04d_def)
  have low: "10 ^ (length (str_nat (idx + 1)) - 1) \<le> idx + 1"
    by (rule str_nat_lower) simp
  show ?thesis
    using assms short long low
    by (simp add: transform_line_core_def format_04d_digits format_04d_value format_04d_length)
qed

text \<open>The lines \<^verbatim>\<open>foo\<close>, \<^verbatim>\<open>bar\<close> at the indices 0 and 1, and a line at index 9999.\<close>

theorem add_line_numbers_witness:
  "transform_line_core posix_env ''foo'' 0 \<lparr>choice = ''1'', target = None, replacement = None\<rparr>
     = Some ''0001: foo''
   \<and> transform_line_core posix_env ''bar'' 1 \<lparr>choice = ''1'', target = None, replacement = None\<rparr>
     = Some ''0002: bar''
   \<and> transform_line_core posix_env ''x'' 9999 \<lparr>choice = ''1'', target = None, replacement = None\<rparr>
     = Some ''10000: x''"
proof -
  let ?o = "\<lparr>choice = ''1'', target = None, replacement = None\<rparr>"
  have c: "choice ?o = ''1''" by simp
  have "transform_line_core posix_env ''foo'' 0 ?o = Some (format_04d (0 + 1) @ '': '' @ ''foo'')"
    using add_line_numbers_field [OF c, of posix_env "''foo''" 0] by blast
  moreover have "transform_line_core posix_env ''bar'' 1 ?o = Some (format_04d (1 + 1) @ '': '' @ ''bar'')"
    using add_line_numbers_field [OF c, of posix_env "''bar''" 1] by blast
  moreover have "transform_line_core posix_env ''x'' 9999 ?o = Some (format_04d (9999 + 1) @ '': '' @ ''x'')"
    using add_line_numbers_field [OF c, of posix_env "''x''" 9999] by blast
  ultimately show ?thesis
    by (simp add: format_04d_Suc_0 format_04d_Suc_Suc_0 format_04d_10000)
qed

end
